theory Spec2Isabelle
  imports Complex_Main "HOL-Library.Code_Target_Numeral"
begin

section \<open>Label masks and the numpy operations the filters use\<close>

text \<open>
  The module \<open>scportrait/processing/filtering.py\<close> works on label masks: integer
  arrays in which 0 is the background and every other value names one object. The
  filters document their input as a two-dimensional array (\<open>Expected shape is (X, Y)\<close>),
  so a mask is a list of rows here. Python integers are unbounded, so labels are \<open>int\<close>.

  Exceptions are values: every function that can raise returns \<open>error + 'a\<close>, with
  \<open>Inl\<close> for the exception.
\<close>

datatype error = AttributeError | IndexError | KeyError | TypeError | ValueError

type_synonym mask = "int list list"


text \<open>
  \<open>np.unique(a)\<close> flattens its argument and returns the distinct values in ascending
  order; with \<open>return_counts=True\<close> it also returns, for each of them, how often it
  occurs.
\<close>

definition np_unique_flat :: "int list \<Rightarrow> int list" where
  "np_unique_flat xs = sort (remdups xs)"

definition np_unique_counts_flat :: "int list \<Rightarrow> nat list" where
  "np_unique_counts_flat xs = map (count_list xs) (np_unique_flat xs)"

definition np_unique :: "mask \<Rightarrow> int list" where
  "np_unique m = np_unique_flat (concat m)"

definition np_unique_counts :: "mask \<Rightarrow> nat list" where
  "np_unique_counts m = np_unique_counts_flat (concat m)"

text \<open>
  \<open>_BaseFilter.get_unique_ids\<close>:
  \<^verbatim>\<open>return np.unique(mask)[1:]  # to remove the background\<close>
  The slice \<open>[1:]\<close> drops the first (smallest) entry, whatever it is; on an empty
  array it gives the empty array.
\<close>

definition get_unique_ids :: "mask \<Rightarrow> int list" where
  "get_unique_ids m = tl (np_unique m)"

text \<open>
  \<open>_BaseFilter.get_updated_mask\<close>:
  \<^verbatim>\<open>return np.where(np.isin(mask, ids_to_remove), 0, mask)\<close>
\<close>

definition np_isin :: "mask \<Rightarrow> int list \<Rightarrow> bool list list" where
  "np_isin m ids = map (map (\<lambda>v. v \<in> set ids)) m"

definition np_where3 :: "bool list list \<Rightarrow> int \<Rightarrow> mask \<Rightarrow> mask" where
  "np_where3 cond a m = map (\<lambda>(cs, r). map (\<lambda>(c, v). if c then a else v) (zip cs r)) (zip cond m)"

definition get_updated_mask :: "mask \<Rightarrow> int list \<Rightarrow> mask" where
  "get_updated_mask m ids_to_remove = np_where3 (np_isin m ids_to_remove) 0 m"


section \<open>Python dictionaries\<close>

text \<open>
  A Python \<open>dict\<close> keeps its keys in insertion order and the matcher iterates over
  its items, so a dictionary is an association list with distinct keys. Assigning to an
  existing key keeps its position; deleting a missing key raises \<open>KeyError\<close>.
\<close>

fun dict_set :: "('k \<times> 'v) list \<Rightarrow> 'k \<Rightarrow> 'v \<Rightarrow> ('k \<times> 'v) list" where
  "dict_set [] k v = [(k, v)]"
| "dict_set ((k', v') # d) k v =
     (if k' = k then (k', v) # d else (k', v') # dict_set d k v)"

fun dict_del :: "('k \<times> 'v) list \<Rightarrow> 'k \<Rightarrow> error + ('k \<times> 'v) list" where
  "dict_del [] k = Inl KeyError"
| "dict_del ((k', v') # d) k =
     (if k' = k then Inr d
      else (case dict_del d k of Inl e \<Rightarrow> Inl e | Inr d' \<Rightarrow> Inr ((k', v') # d')))"

text \<open>
  \<open>collections.defaultdict(int)\<close>: reading a missing key inserts it with the value 0
  and returns 0.
\<close>

definition defaultdict_get :: "(int \<times> nat) list \<Rightarrow> int \<Rightarrow> nat \<times> (int \<times> nat) list" where
  "defaultdict_get d k = (case map_of d k of Some v \<Rightarrow> (v, d) | None \<Rightarrow> (0, d @ [(k, 0)]))"

definition defaultdict_incr :: "(int \<times> nat) list \<Rightarrow> int \<Rightarrow> (int \<times> nat) list" where
  "defaultdict_incr d k = (case defaultdict_get d k of (v, d') \<Rightarrow> dict_set d' k (v + 1))"

text \<open>
  \<open>list(set(xs))\<close> removes duplicates. The order in which a Python set is iterated is
  not specified; the model keeps the last occurrence of every element in place. The
  filters use the resulting lists for membership tests and for deletions of distinct
  keys only.
\<close>

definition list_of_set :: "'a list \<Rightarrow> 'a list" where
  "list_of_set xs = remdups xs"

section \<open>The identity matcher \<open>MatchNucleusCytosolIds\<close>\<close>

text \<open>
  The session object. The attributes \<open>downsampling_factor\<close>, \<open>erosion_dilation\<close> and
  \<open>smoothing_kernel_size\<close> exist only when a downsampling factor was given, and
  \<open>self.downsample\<close> says whether it was: the field \<open>downsampling\<close> holds the three of
  them or \<open>None\<close>. \<open>lookup_dict\<close> is \<open>self._nucleus_lookup_dict\<close>.
  \<open>self.nucleus_lookup_dict\<close> is either \<open>None\<close> or, after \<open>get_lookup_table\<close>, the very
  same dictionary object as \<open>self._nucleus_lookup_dict\<close>; \<open>lookup_published\<close> says
  which. \<open>self.cytosol_count\<close> does not exist before \<open>_count_cytosol_occurances\<close> ran.
  Logging and plotting do not feed back into any decision and are left out.
\<close>

record matcher =
  filtering_threshold :: real
  downsampling :: "(nat \<times> bool \<times> nat) option"
  nucleus_mask :: "mask option"
  cytosol_mask :: "mask option"
  lookup_dict :: "(int \<times> int) list"
  nuclei_discard_list :: "int list"
  cytosol_discard_list :: "int list"
  cytosol_count :: "(int \<times> nat) list option"
  lookup_published :: bool

definition downsample :: "matcher \<Rightarrow> bool" where
  "downsample s = (downsampling s \<noteq> None)"

text \<open>\<open>MatchNucleusCytosolIds.__init__\<close>\<close>

definition MatchNucleusCytosolIds :: "real \<Rightarrow> nat option \<Rightarrow> bool \<Rightarrow> nat \<Rightarrow> matcher" where
  "MatchNucleusCytosolIds thr factor ed ksize =
     \<lparr> filtering_threshold = thr,
       downsampling = (case factor of None \<Rightarrow> None | Some f \<Rightarrow> Some (f, ed, ksize)),
       nucleus_mask = None,
       cytosol_mask = None,
       lookup_dict = [],
       nuclei_discard_list = [],
       cytosol_discard_list = [],
       cytosol_count = None,
       lookup_published = False \<rparr>"

text \<open>
  \<open>_load_masks\<close>. With downsampling the method calls \<open>self.downsample_mask(...)\<close>.
  No class of the module defines \<open>downsample_mask\<close> (the base class defines
  \<open>get_downsampled_mask\<close>, and \<open>self.downsample\<close> is a boolean), so the call raises
  \<open>AttributeError\<close> as soon as a mask has to be loaded.
\<close>

definition load_masks :: "matcher \<Rightarrow> mask \<Rightarrow> mask \<Rightarrow> error + matcher" where
  "load_masks s nuc cyt =
     (if downsample s then
        (if nucleus_mask s = None then Inl AttributeError
         else if cytosol_mask s = None then Inl AttributeError
         else Inr s)
      else
        Inr (s\<lparr> nucleus_mask := (if nucleus_mask s = None then Some nuc else nucleus_mask s),
                cytosol_mask := (if cytosol_mask s = None then Some cyt else cytosol_mask s) \<rparr>))"

text \<open>
  \<open>np.where(mask == v)\<close>: the coordinates of the pixels with value \<open>v\<close>, in row-major
  order. Indexing an array with coordinate arrays raises \<open>IndexError\<close> when a
  coordinate is out of bounds.
\<close>

definition np_where_eq :: "mask \<Rightarrow> int \<Rightarrow> (nat \<times> nat) list" where
  "np_where_eq m v = [(i, j). i \<leftarrow> [0..<length m], j \<leftarrow> [0..<length (m ! i)], m ! i ! j = v]"

definition in_bounds :: "mask \<Rightarrow> nat \<times> nat \<Rightarrow> bool" where
  "in_bounds m p = (fst p < length m \<and> snd p < length (m ! fst p))"

definition np_take :: "mask \<Rightarrow> (nat \<times> nat) list \<Rightarrow> error + int list" where
  "np_take m idx =
     (if list_all (in_bounds m) idx then Inr (map (\<lambda>(i, j). m ! i ! j) idx) else Inl IndexError)"

text \<open>
  \<open>np.argmax\<close> of a boolean array: the index of the first \<open>True\<close>, 0 when there is
  none; \<open>ValueError\<close> on an empty array.
\<close>

definition np_argmax :: "bool list \<Rightarrow> error + nat" where
  "np_argmax bs =
     (if bs = [] then Inl ValueError
      else if True \<in> set bs then Inr (length (takeWhile (\<lambda>b. \<not> b) bs))
      else Inr 0)"

text \<open>
  The proportions \<open>counts / all_counts\<close> of \<open>_match_nucleus_id\<close> are float64 quotients
  of an \<open>int64\<close> pixel count by the sum of all the counts. A pixel count is below
  \<open>2 ^ 53\<close> (no array holds that many pixels), so float64 holds it exactly, and IEEE 754
  division returns the quotient rounded to the nearest float64, ties to the even
  significand. \<open>float64_normalise\<close> doubles the numerator until the quotient has reached
  \<open>2 ^ 52\<close>, counting the doublings: the quotient then has its 53 significant bits before
  the binary point. \<open>round_half_even n t\<close> is the integer nearest to \<open>n / t\<close>.
  \<open>float64_div c t\<close> is the value of the float64 that \<open>c / t\<close> evaluates to, for
  \<open>0 < c\<close> and \<open>0 < t\<close>; a quotient of a count by the sum of the counts lies in
  \<open>(0, 1]\<close>, far from underflow and overflow.
\<close>

function float64_normalise :: "nat \<Rightarrow> nat \<Rightarrow> nat \<Rightarrow> nat \<times> nat" where
  "float64_normalise n t k =
     (if n = 0 \<or> t * 2 ^ 52 \<le> n then (n, k) else float64_normalise (2 * n) t (k + 1))"
  by pat_completeness auto
termination
proof (relation "measure (\<lambda>(n, t, k). t * 2 ^ 52 - n)")
  show "wf (measure (\<lambda>(n, t, k). t * 2 ^ 52 - n))" by simp
next
  fix n t k :: nat
  assume "\<not> (n = 0 \<or> t * 2 ^ 52 \<le> n)"
  then have "t * 2 ^ 52 - 2 * n < t * 2 ^ 52 - n" by linarith
  then show "((2 * n, t, k + 1), (n, t, k)) \<in> measure (\<lambda>(n, t, k). t * 2 ^ 52 - n)"
    by simp
qed

declare float64_normalise.simps [simp del]

definition round_half_even :: "nat \<Rightarrow> nat \<Rightarrow> nat" where
  "round_half_even n t =
     (let q = n div t; r = n mod t
      in if 2 * r < t then q else if t < 2 * r then q + 1 else if even q then q else q + 1)"

definition float64_div :: "nat \<Rightarrow> nat \<Rightarrow> real" where
  "float64_div c t =
     (case float64_normalise c t 0 of (n, k) \<Rightarrow> real (round_half_even n t) / 2 ^ k)"

text \<open>
  \<open>_match_nucleus_id\<close>. The threshold is a float64 as well, held by the session as the
  real number it stands for; comparing two float64 values compares these numbers.
\<close>

definition discard_nucleus :: "matcher \<Rightarrow> int \<Rightarrow> matcher" where
  "discard_nucleus s nucleus_id = s\<lparr> nuclei_discard_list := nuclei_discard_list s @ [nucleus_id] \<rparr>"

definition match_nucleus_id :: "matcher \<Rightarrow> int \<Rightarrow> error + (int option \<times> matcher)" where
  "match_nucleus_id s nucleus_id =
     (case cytosol_mask s of
        None \<Rightarrow> Inl TypeError
      | Some cm \<Rightarrow>
         (case np_take cm (case nucleus_mask s of None \<Rightarrow> [] | Some nm \<Rightarrow> np_where_eq nm nucleus_id) of
            Inl e \<Rightarrow> Inl e
          | Inr potential_cytosol \<Rightarrow>
             if list_all (\<lambda>v. v \<noteq> 0) potential_cytosol then
               (let unique_cytosol = np_unique_flat potential_cytosol;
                    counts = np_unique_counts_flat potential_cytosol;
                    all_counts = sum_list counts;
                    cytosol_proportions = map (\<lambda>c. float64_div c all_counts) counts;
                    hits = map (\<lambda>p. p \<ge> filtering_threshold s) cytosol_proportions
                in if list_ex (\<lambda>b. b) hits then
                     (case np_argmax hits of
                        Inl e \<Rightarrow> Inl e
                      | Inr k \<Rightarrow>
                         (let cytosol_id = unique_cytosol ! k
                          in if cytosol_id \<noteq> 0 then
                               Inr (Some cytosol_id,
                                    s\<lparr> lookup_dict := dict_set (lookup_dict s) nucleus_id cytosol_id \<rparr>)
                             else Inr (None, discard_nucleus s nucleus_id)))
                   else Inr (None, discard_nucleus s nucleus_id))
             else Inr (None, discard_nucleus s nucleus_id)))"

text \<open>\<open>_initialize_lookup_table\<close>: match every nucleus id of the loaded nucleus mask.\<close>

fun match_each :: "matcher \<Rightarrow> int list \<Rightarrow> error + matcher" where
  "match_each s [] = Inr s"
| "match_each s (nucleus_id # ids) =
     (case match_nucleus_id s nucleus_id of
        Inl e \<Rightarrow> Inl e
      | Inr (_, s') \<Rightarrow> match_each s' ids)"

definition initialize_lookup_table :: "matcher \<Rightarrow> error + matcher" where
  "initialize_lookup_table s =
     match_each s (case nucleus_mask s of None \<Rightarrow> [] | Some nm \<Rightarrow> get_unique_ids nm)"

text \<open>\<open>_count_cytosol_occurances\<close>\<close>

definition count_cytosol_occurances :: "matcher \<Rightarrow> matcher" where
  "count_cytosol_occurances s =
     s\<lparr> cytosol_count := Some (fold (\<lambda>cytosol cnt. defaultdict_incr cnt cytosol) (map snd (lookup_dict s)) []) \<rparr>"

text \<open>\<open>_check_for_unassigned_cytosols\<close>\<close>

definition check_for_unassigned_cytosols :: "matcher \<Rightarrow> matcher" where
  "check_for_unassigned_cytosols s =
     s\<lparr> cytosol_discard_list := cytosol_discard_list s @
          filter (\<lambda>cytosol_id. cytosol_id \<notin> set (map snd (lookup_dict s)))
                 (case cytosol_mask s of None \<Rightarrow> [] | Some cm \<Rightarrow> get_unique_ids cm) \<rparr>"

text \<open>\<open>_identify_multinucleated_cells\<close>\<close>

fun multinucleated_loop ::
  "(int \<times> int) list \<Rightarrow> (int \<times> nat) list \<Rightarrow> int list \<Rightarrow> int list
     \<Rightarrow> (int \<times> nat) list \<times> int list \<times> int list" where
  "multinucleated_loop [] cnt nd cd = (cnt, nd, cd)"
| "multinucleated_loop ((nucleus, cytosol) # items) cnt nd cd =
     (case defaultdict_get cnt cytosol of
        (v, cnt') \<Rightarrow>
          if v > 1 then multinucleated_loop items cnt' (nd @ [nucleus]) (cd @ [cytosol])
          else multinucleated_loop items cnt' nd cd)"

definition identify_multinucleated_cells :: "matcher \<Rightarrow> error + matcher" where
  "identify_multinucleated_cells s =
     (case cytosol_count s of
        None \<Rightarrow> (if lookup_dict s = [] then Inr s else Inl AttributeError)
      | Some cnt \<Rightarrow>
         (case multinucleated_loop (lookup_dict s) cnt (nuclei_discard_list s) (cytosol_discard_list s) of
            (cnt', nd, cd) \<Rightarrow>
              Inr (s\<lparr> cytosol_count := Some cnt', nuclei_discard_list := nd, cytosol_discard_list := cd \<rparr>)))"

text \<open>\<open>_cleanup_filtering_lists\<close>\<close>

definition cleanup_filtering_lists :: "matcher \<Rightarrow> matcher" where
  "cleanup_filtering_lists s =
     s\<lparr> nuclei_discard_list := list_of_set (nuclei_discard_list s),
        cytosol_discard_list := list_of_set (cytosol_discard_list s) \<rparr>"

text \<open>\<open>_cleanup_lookup_dictionary\<close>\<close>

definition cleanup_keys :: "matcher \<Rightarrow> int list" where
  "cleanup_keys s =
     concat (map (\<lambda>(nucleus_id, cytosol_id).
                    (if nucleus_id \<in> set (nuclei_discard_list s) then [nucleus_id] else []) @
                    (if cytosol_id \<in> set (cytosol_discard_list s) then [nucleus_id] else []))
                 (lookup_dict s))"

fun del_each :: "(int \<times> int) list \<Rightarrow> int list \<Rightarrow> error + (int \<times> int) list" where
  "del_each d [] = Inr d"
| "del_each d (nucleus # ks) =
     (case dict_del d nucleus of Inl e \<Rightarrow> Inl e | Inr d' \<Rightarrow> del_each d' ks)"

definition cleanup_lookup_dictionary :: "matcher \<Rightarrow> error + matcher" where
  "cleanup_lookup_dictionary s =
     (case del_each (lookup_dict s) (list_of_set (cleanup_keys s)) of
        Inl e \<Rightarrow> Inl e
      | Inr d \<Rightarrow> Inr (s\<lparr> lookup_dict := d \<rparr>))"

text \<open>\<open>get_lookup_table\<close>: returns the lookup table, and the session as it leaves it.\<close>

definition get_lookup_table ::
  "matcher \<Rightarrow> mask \<Rightarrow> mask \<Rightarrow> error + ((int \<times> int) list \<times> matcher)" where
  "get_lookup_table s nuc cyt =
     (case load_masks s nuc cyt of
        Inl e \<Rightarrow> Inl e
      | Inr s1 \<Rightarrow>
         (case initialize_lookup_table s1 of
            Inl e \<Rightarrow> Inl e
          | Inr s2 \<Rightarrow>
             (case identify_multinucleated_cells
                     (check_for_unassigned_cytosols (count_cytosol_occurances s2)) of
                Inl e \<Rightarrow> Inl e
              | Inr s3 \<Rightarrow>
                 (case cleanup_lookup_dictionary (cleanup_filtering_lists s3) of
                    Inl e \<Rightarrow> Inl e
                  | Inr s4 \<Rightarrow> Inr (lookup_dict s4, s4\<lparr> lookup_published := True \<rparr>)))))"

text \<open>
  \<open>_get_updated_cytosol_mask\<close>: zero the discarded cytosols, then relabel entry by
  entry, touching every pixel at most once (\<open>updated\<close> records the touched pixels).
\<close>

fun relabel_loop :: "(int \<times> int) list \<Rightarrow> mask \<Rightarrow> bool list list \<Rightarrow> mask" where
  "relabel_loop [] cm updated = cm"
| "relabel_loop ((nucleus_id, cytosol_id) # items) cm updated =
     (let condition = map2 (map2 (\<lambda>v u. v = cytosol_id \<and> \<not> u)) cm updated
      in relabel_loop items (np_where3 condition nucleus_id cm)
                            (map2 (map2 (\<lambda>u c. u \<or> c)) updated condition))"

definition get_updated_cytosol_mask :: "matcher \<Rightarrow> mask \<Rightarrow> error + mask" where
  "get_updated_cytosol_mask s cm =
     (if lookup_published s then
        Inr (relabel_loop (lookup_dict s)
               (get_updated_mask cm (cytosol_discard_list s))
               (map (map (\<lambda>_. False)) cm))
      else Inl AttributeError)"

text \<open>
  \<open>get_upscaled_mask_basic\<close>: repeat every pixel along both axes, then smooth if asked.
  \<open>erosion\<close> and \<open>dilation\<close> belong to scikit-image; they are parameters of the model,
  applied to the mask and the radius of the disk footprint.
\<close>

definition np_repeat :: "nat \<Rightarrow> 'a list \<Rightarrow> 'a list" where
  "np_repeat n xs = concat (map (replicate n) xs)"

definition get_upscaled_mask_basic ::
  "(mask \<Rightarrow> nat \<Rightarrow> mask) \<Rightarrow> (mask \<Rightarrow> nat \<Rightarrow> mask) \<Rightarrow> nat \<Rightarrow> nat \<Rightarrow> mask \<Rightarrow> bool \<Rightarrow> mask" where
  "get_upscaled_mask_basic erosion dilation factor ksize m ed =
     (let m1 = map (np_repeat factor) (np_repeat factor m)
      in if ed then dilation (erosion m1 ksize) ksize else m1)"

text \<open>
  \<open>_get_updated_masks\<close>. In the downsampling branch the source upscales
  \<open>self.cytosol_mask\<close>, the mask as it was loaded, not the local \<open>cytosol_mask\<close>
  it has just cleaned and relabelled.
\<close>

definition get_updated_masks ::
  "(mask \<Rightarrow> nat \<Rightarrow> mask) \<Rightarrow> (mask \<Rightarrow> nat \<Rightarrow> mask) \<Rightarrow> matcher \<Rightarrow> error + (mask \<times> mask)" where
  "get_updated_masks erosion dilation s =
     (case (nucleus_mask s, cytosol_mask s) of
        (Some nm, Some cm) \<Rightarrow>
          (let nucleus_mask' = get_updated_mask nm (nuclei_discard_list s)
           in case get_updated_cytosol_mask s cm of
                Inl e \<Rightarrow> Inl e
              | Inr cytosol_mask' \<Rightarrow>
                 (case downsampling s of
                    Some (factor, ed, ksize) \<Rightarrow>
                      Inr (get_upscaled_mask_basic erosion dilation factor ksize nucleus_mask' ed,
                           get_upscaled_mask_basic erosion dilation factor ksize cm ed)
                  | None \<Rightarrow> Inr (nucleus_mask', cytosol_mask')))
      | _ \<Rightarrow> Inl TypeError)"

text \<open>
  \<open>MatchNucleusCytosolIds.filter\<close>: returns the two output masks, and the session as
  it leaves it.
\<close>

definition filter_masks ::
  "(mask \<Rightarrow> nat \<Rightarrow> mask) \<Rightarrow> (mask \<Rightarrow> nat \<Rightarrow> mask) \<Rightarrow> matcher \<Rightarrow> mask \<Rightarrow> mask
     \<Rightarrow> error + ((mask \<times> mask) \<times> matcher)" where
  "filter_masks erosion dilation s nuc cyt =
     (case load_masks s nuc cyt of
        Inl e \<Rightarrow> Inl e
      | Inr s1 \<Rightarrow>
         (case (if lookup_published s1 then Inr s1
                else (case get_lookup_table s1 nuc cyt of Inl e \<Rightarrow> Inl e | Inr (_, s2) \<Rightarrow> Inr s2)) of
            Inl e \<Rightarrow> Inl e
          | Inr s2 \<Rightarrow>
             (case get_updated_masks erosion dilation s2 of
                Inl e \<Rightarrow> Inl e
              | Inr masks \<Rightarrow> Inr (masks, s2))))"

section \<open>The size filter \<open>SizeFilter\<close>\<close>

text \<open>
  The session object of the size filter, with the attributes that decide which ids are
  removed. \<open>sf_downsample\<close> is \<open>self.downsample\<close>. The thresholds are floats in the
  source and are compared with integer pixel counts; the model compares exactly.
  The histogram plots and the log lines are left out.
\<close>

record size_filter =
  sf_filter_threshold :: "(real \<times> real) option"
  sf_filter_lower :: bool
  sf_filter_upper :: bool
  sf_downsample :: bool
  sf_mask :: "mask option"
  sf_ids :: "int list option"
  sf_ids_to_remove :: "int list option"

text \<open>\<open>SizeFilter.__init__\<close>: both tails disabled is a \<open>ValueError\<close>.\<close>

definition SizeFilter ::
  "(real \<times> real) option \<Rightarrow> bool \<Rightarrow> bool \<Rightarrow> nat option \<Rightarrow> error + size_filter" where
  "SizeFilter thr lower upper factor =
     (if \<not> lower \<and> \<not> upper then Inl ValueError
      else Inr \<lparr> sf_filter_threshold = thr,
                 sf_filter_lower = lower,
                 sf_filter_upper = upper,
                 sf_downsample = (factor \<noteq> None),
                 sf_mask = None,
                 sf_ids = None,
                 sf_ids_to_remove = None \<rparr>)"

text \<open>
  \<open>SizeFilter.load_mask\<close>; with downsampling it calls the undefined
  \<open>self.downsample_mask\<close>, as \<open>_load_masks\<close> of the matcher does.
\<close>

definition load_mask :: "size_filter \<Rightarrow> mask \<Rightarrow> error + size_filter" where
  "load_mask f m =
     (if sf_downsample f then
        (if sf_mask f = None then Inl AttributeError else Inr f)
      else Inr (f\<lparr> sf_mask := (if sf_mask f = None then Some m else sf_mask f) \<rparr>))"

text \<open>
  \<open>counts[0][1:][np.where(pixel_counts < t)]\<close>: the ids whose pixel count satisfies
  the comparison, in the order of \<open>ids\<close>.
\<close>

definition ids_where :: "int list \<Rightarrow> nat list \<Rightarrow> (nat \<Rightarrow> bool) \<Rightarrow> int list" where
  "ids_where ids pixel_counts p = map fst (filter (\<lambda>(i, c). p c) (zip ids pixel_counts))"

text \<open>
  \<open>SizeFilter._get_ids_to_remove\<close>. Without an explicit threshold the source fits a
  Gaussian mixture model to the pixel counts (\<open>_calculate_filtering_threshold\<close>,
  scikit-learn and floating point); the fit is the parameter \<open>calc\<close> of the model.
\<close>

definition get_ids_to_remove ::
  "(nat list \<Rightarrow> real \<times> real) \<Rightarrow> size_filter \<Rightarrow> mask \<Rightarrow> error + size_filter" where
  "get_ids_to_remove calc f input_mask =
     (case load_mask f input_mask of
        Inl e \<Rightarrow> Inl e
      | Inr f1 \<Rightarrow>
         (case sf_mask f1 of
            None \<Rightarrow> Inl TypeError
          | Some m \<Rightarrow>
             (let ids = tl (np_unique m);
                  pixel_counts = tl (np_unique_counts m);
                  thr = (case sf_filter_threshold f1 of None \<Rightarrow> calc pixel_counts | Some t \<Rightarrow> t);
                  ids_remove =
                    (if sf_filter_lower f1 then ids_where ids pixel_counts (\<lambda>c. real c < fst thr) else []) @
                    (if sf_filter_upper f1 then ids_where ids pixel_counts (\<lambda>c. real c > snd thr) else [])
              in Inr (f1\<lparr> sf_ids := Some ids,
                         sf_filter_threshold := Some thr,
                         sf_ids_to_remove := Some ids_remove \<rparr>))))"

text \<open>\<open>SizeFilter.filter\<close>: returns the filtered mask, and the session as it leaves it.\<close>

definition filter_size ::
  "(nat list \<Rightarrow> real \<times> real) \<Rightarrow> size_filter \<Rightarrow> mask \<Rightarrow> error + (mask \<times> size_filter)" where
  "filter_size calc f input_mask =
     (case (if sf_ids_to_remove f = None then get_ids_to_remove calc f input_mask else Inr f) of
        Inl e \<Rightarrow> Inl e
      | Inr f1 \<Rightarrow>
         (case sf_ids_to_remove f1 of
            None \<Rightarrow> Inl TypeError
          | Some ids \<Rightarrow> Inr (get_updated_mask input_mask ids, f1)))"

text \<open>
  A fresh filter with an explicit threshold pair and both tails enabled, applied to one
  mask: the filtered mask or the exception.
\<close>

definition size_filter_run :: "real \<Rightarrow> real \<Rightarrow> mask \<Rightarrow> error + mask" where
  "size_filter_run lo hi m =
     (case SizeFilter (Some (lo, hi)) True True None of
        Inl e \<Rightarrow> Inl e
      | Inr f \<Rightarrow> (case filter_size (\<lambda>_. (lo, hi)) f m of Inl e \<Rightarrow> Inl e | Inr (m', _) \<Rightarrow> Inr m'))"

text \<open>The pixel count of an id in a mask.\<close>

definition pixel_count :: "mask \<Rightarrow> int \<Rightarrow> nat" where
  "pixel_count m v = count_list (concat m) v"

section \<open>Footprints and overlap\<close>

text \<open>
  The footprint of a nucleus id: the cytosol labels under its pixels. It is defined
  when every pixel of the nucleus has a pixel of the cytosol mask at its coordinates.
\<close>

definition covered :: "mask \<Rightarrow> mask \<Rightarrow> int \<Rightarrow> bool" where
  "covered nm cm n = list_all (in_bounds cm) (np_where_eq nm n)"

definition footprint :: "mask \<Rightarrow> mask \<Rightarrow> int \<Rightarrow> int list" where
  "footprint nm cm n = map (\<lambda>(i, j). cm ! i ! j) (np_where_eq nm n)"

definition overlap_fraction :: "int list \<Rightarrow> int \<Rightarrow> real" where
  "overlap_fraction fp c = real (count_list fp c) / real (length fp)"

text \<open>
  The same fraction as \<open>_match_nucleus_id\<close> computes it: the float64 quotient of the two
  pixel counts.
\<close>

definition overlap_fraction64 :: "int list \<Rightarrow> int \<Rightarrow> real" where
  "overlap_fraction64 fp c = float64_div (count_list fp c) (length fp)"


text \<open>The value a \<open>defaultdict(int)\<close> holds for a key, without touching it.\<close>

definition dd_val :: "(int \<times> nat) list \<Rightarrow> int \<Rightarrow> nat" where
  "dd_val d k = (case map_of d k of Some v \<Rightarrow> v | None \<Rightarrow> 0)"



section \<open>Mask utilities: basic facts\<close>

lemma np_where3_isin:
  "np_where3 (np_isin m ids) a m = map (map (\<lambda>v. if v \<in> set ids then a else v)) m"
proof -
  have row: "map (\<lambda>(c, v). if c then a else v) (zip (map (\<lambda>v. v \<in> set ids) r) r)
             = map (\<lambda>v. if v \<in> set ids then a else v) r" for r :: "int list"
    by (induction r) simp_all
  have "np_where3 (np_isin m ids) a m
        = map (\<lambda>r. map (\<lambda>(c, v). if c then a else v) (zip (map (\<lambda>v. v \<in> set ids) r) r)) m"
    unfolding np_where3_def np_isin_def by (induction m) simp_all
  then show ?thesis by (simp add: row)
qed

lemma get_updated_mask_eq:
  "get_updated_mask m ids = map (map (\<lambda>v. if v \<in> set ids then 0 else v)) m"
  unfolding get_updated_mask_def by (rule np_where3_isin)

lemma set_np_unique_flat [simp]: "set (np_unique_flat xs) = set xs"
  by (simp add: np_unique_flat_def)

lemma distinct_np_unique_flat [simp]: "distinct (np_unique_flat xs)"
  by (simp add: np_unique_flat_def)

lemma sorted_np_unique_flat [simp]: "sorted (np_unique_flat xs)"
  by (simp add: np_unique_flat_def)

section \<open>Claims about the mask utilities\<close>

text \<open>
  C8. The claim: for every label mask, \<open>get_unique_ids\<close> returns exactly the distinct
  positive values of the mask, never 0 and omitting no positive id. The code drops the
  smallest distinct value instead of the value 0. On a mask without any background
  pixel, such as the fully covered 2x2 mask below, the smallest object id (here 1) is
  dropped although it is a positive id present in the mask.
\<close>

theorem get_unique_ids_drops_smallest_id:
  "get_unique_ids [[1, 2], [3, 4]] = [2, 3, 4] \<and> 1 \<notin> set (get_unique_ids [[1, 2], [3, 4]])"
  by (simp add: get_unique_ids_def np_unique_def np_unique_flat_def)

text \<open>
  C9. \<open>get_updated_mask\<close> keeps the shape of the mask, sets exactly the pixels whose
  original value is in the id collection to 0 and leaves every other pixel at its
  original value; with no ids to remove it returns the mask itself.
\<close>

theorem get_updated_mask_frame:
  "length (get_updated_mask m ids) = length m
   \<and> (\<forall>i < length m. length (get_updated_mask m ids ! i) = length (m ! i)
        \<and> (\<forall>j < length (m ! i).
              (m ! i ! j \<in> set ids \<longrightarrow> get_updated_mask m ids ! i ! j = 0)
            \<and> (m ! i ! j \<notin> set ids \<longrightarrow> get_updated_mask m ids ! i ! j = m ! i ! j)))
   \<and> get_updated_mask m [] = m"
proof -
  have "get_updated_mask m [] = m"
    by (simp add: get_updated_mask_eq map_idI)
  then show ?thesis
    by (simp add: get_updated_mask_eq)
qed

theorem get_updated_mask_frame_witness:
  "get_updated_mask [[1, 2], [0, 2]] [2] = [[1, 0], [0, 0]]
   \<and> get_updated_mask [[1, 2], [0, 2]] [] = [[1, 2], [0, 2]]
   \<and> get_updated_mask [[1, 2], [0, 2]] [2] ! 0 ! 1 = 0
   \<and> get_updated_mask [[1, 2], [0, 2]] [2] ! 0 ! 0 = 1"
  using get_updated_mask_frame [of "[[1, 2], [0, 2]]" "[2]"]
  by (simp add: get_updated_mask_eq)

section \<open>Dictionaries\<close>




lemma set_dict_set_subset: "set (dict_set d k v) \<subseteq> insert (k, v) (set d)"
  by (induction d) (auto split: if_splits)








section \<open>The float64 quotient\<close>

lemma float64_normalise_post:
  "float64_normalise n t k = (n', k') \<Longrightarrow>
     k \<le> k' \<and> n' = n * 2 ^ (k' - k) \<and> (0 < n \<longrightarrow> t * 2 ^ 52 \<le> n')"
proof (induction n t k rule: float64_normalise.induct)
  case (1 n t k)
  show ?case
  proof (cases "n = 0 \<or> t * 2 ^ 52 \<le> n")
    case True
    with "1.prems" show ?thesis by (subst (asm) float64_normalise.simps) auto
  next
    case False
    with "1.prems" have rec: "float64_normalise (2 * n) t (k + 1) = (n', k')"
      by (subst (asm) float64_normalise.simps) simp
    from "1.IH" [OF False rec] have ih: "k + 1 \<le> k'" "n' = 2 * n * 2 ^ (k' - (k + 1))"
        "t * 2 ^ 52 \<le> n'"
      using False by simp_all
    have "k' - k = Suc (k' - (k + 1))" using ih(1) by simp
    then have "n' = n * 2 ^ (k' - k)" using ih(2) by simp
    with ih show ?thesis by simp
  qed
qed

lemma round_half_even_near:
  assumes "0 < t"
  shows "\<bar>real (round_half_even n t) - real n / real t\<bar> \<le> 1 / 2"
proof -
  define q r where "q = n div t" and "r = n mod t"
  have "n = q * t + r"
    unfolding q_def r_def by simp
  then have "real n = real (q * t + r)" by simp
  then have n: "real n = real q * real t + real r" by simp
  have rt: "r < t" unfolding r_def using assms by simp
  have quot: "real n / real t = real q + real r / real t"
    using assms by (simp add: n field_simps)
  consider "2 * r < t" | "t < 2 * r" | "2 * r = t" by linarith
  then show ?thesis
  proof cases
    case 1
    then have "real r / real t \<le> 1 / 2" using assms by (simp add: field_simps)
    moreover have "round_half_even n t = q"
      using 1 by (simp add: round_half_even_def q_def r_def Let_def)
    ultimately show ?thesis by (simp add: quot)
  next
    case 2
    then have "1 / 2 \<le> real r / real t" "real r / real t \<le> 1"
      using assms rt by (simp_all add: field_simps)
    moreover have "round_half_even n t = q + 1"
      using 2 by (simp add: round_half_even_def q_def r_def Let_def)
    ultimately show ?thesis by (simp add: quot)
  next
    case 3
    then have rhalf: "real r / real t = 1 / 2" using assms by (simp add: field_simps)
    have half: "real n / real t = real q + 1 / 2" by (simp only: quot rhalf)
    have "round_half_even n t = q \<or> round_half_even n t = q + 1"
      using 3 by (simp add: round_half_even_def q_def r_def Let_def)
    then show ?thesis unfolding half by auto
  qed
qed

text \<open>
  The float64 quotient is the exact quotient up to the relative rounding error of
  float64, \<open>2 ^ -53\<close>.
\<close>

lemma float64_div_error:
  assumes "0 < c" and "0 < t"
  shows "\<bar>float64_div c t - real c / real t\<bar> \<le> real c / real t / 2 ^ 53"
proof -
  obtain n k where nk: "float64_normalise c t 0 = (n, k)"
    by (cases "float64_normalise c t 0")
  from float64_normalise_post [OF nk] assms(1)
  have n: "n = c * 2 ^ k" and ge: "t * 2 ^ 52 \<le> n" by simp_all
  have near: "\<bar>real (round_half_even n t) - real n / real t\<bar> \<le> 1 / 2"
    by (rule round_half_even_near [OF assms(2)])
  have fd: "float64_div c t = real (round_half_even n t) / 2 ^ k"
    by (simp add: float64_div_def nk)
  have ct: "real c / real t = real n / real t / 2 ^ k"
    by (simp add: n)
  have "float64_div c t - real c / real t = (real (round_half_even n t) - real n / real t) / 2 ^ k"
    by (simp only: fd ct diff_divide_distrib)
  then have "\<bar>float64_div c t - real c / real t\<bar>
        = \<bar>real (round_half_even n t) - real n / real t\<bar> / 2 ^ k"
    by (simp add: abs_divide)
  also have "\<dots> \<le> (1 / 2) / 2 ^ k"
    by (rule divide_right_mono [OF near]) simp
  also have "\<dots> \<le> real n / real t / 2 ^ 53 / 2 ^ k"
  proof -
    have "real (t * 2 ^ 52) \<le> real n"
      using ge by (rule of_nat_mono)
    then have "real t * 2 ^ 52 \<le> real n" by simp
    then have "2 ^ 52 \<le> real n / real t"
      using assms(2) by (simp add: field_simps)
    then have "1 / 2 \<le> real n / real t / 2 ^ 53" by simp
    then show ?thesis by (rule divide_right_mono) simp
  qed
  also have "\<dots> = real c / real t / 2 ^ 53"
    unfolding ct by simp
  finally show ?thesis .
qed

lemma overlap_fraction64_error:
  assumes "c \<in> set fp"
  shows "\<bar>overlap_fraction64 fp c - overlap_fraction fp c\<bar> \<le> overlap_fraction fp c / 2 ^ 53"
proof -
  have "0 < count_list fp c"
    using assms count_list_0_iff [of fp c] by simp
  moreover have "0 < length fp"
    using assms by (cases fp) simp_all
  ultimately show ?thesis
    unfolding overlap_fraction64_def overlap_fraction_def by (rule float64_div_error)
qed

section \<open>Footprints, counts and the first hit\<close>

lemma np_where_eq_iff:
  "(i, j) \<in> set (np_where_eq m v) \<longleftrightarrow> i < length m \<and> j < length (m ! i) \<and> m ! i ! j = v"
  by (auto simp: np_where_eq_def)

lemma np_take_covered:
  "covered nm cm n \<Longrightarrow> np_take cm (np_where_eq nm n) = Inr (footprint nm cm n)"
  by (simp add: np_take_def covered_def footprint_def)


lemma sum_list_np_unique_counts_flat: "sum_list (np_unique_counts_flat xs) = length xs"
proof -
  have "sum_list (map (count_list xs) (np_unique_flat xs)) = sum (count_list xs) (set xs)"
    using sum_list_distinct_conv_sum_set [of "np_unique_flat xs" "count_list xs"] by simp
  also have "\<dots> = length xs"
    by (rule sum_count_set) simp_all
  finally show ?thesis by (simp add: np_unique_counts_flat_def)
qed

lemma proportions_eq:
  "map (\<lambda>p. thr \<le> p) (map (\<lambda>c. float64_div c (sum_list (np_unique_counts_flat xs))) (np_unique_counts_flat xs))
   = map (\<lambda>u. thr \<le> overlap_fraction64 xs u) (np_unique_flat xs)"
  using sum_list_np_unique_counts_flat [of xs]
  by (simp add: overlap_fraction64_def np_unique_counts_flat_def)


section \<open>What \<open>_match_nucleus_id\<close> does\<close>

lemma match_nucleus_id_alt:
  "match_nucleus_id s n =
     (case cytosol_mask s of
        None \<Rightarrow> Inl TypeError
      | Some cm \<Rightarrow>
         (case np_take cm (case nucleus_mask s of None \<Rightarrow> [] | Some nm \<Rightarrow> np_where_eq nm n) of
            Inl e \<Rightarrow> Inl e
          | Inr fp \<Rightarrow>
             if list_all (\<lambda>v. v \<noteq> 0) fp then
               (if list_ex (\<lambda>b. b) (map (\<lambda>u. filtering_threshold s \<le> overlap_fraction64 fp u) (np_unique_flat fp)) then
                  (case np_argmax (map (\<lambda>u. filtering_threshold s \<le> overlap_fraction64 fp u) (np_unique_flat fp)) of
                     Inl e \<Rightarrow> Inl e
                   | Inr k \<Rightarrow>
                      if np_unique_flat fp ! k \<noteq> 0 then
                        Inr (Some (np_unique_flat fp ! k),
                             s\<lparr> lookup_dict := dict_set (lookup_dict s) n (np_unique_flat fp ! k) \<rparr>)
                      else Inr (None, discard_nucleus s n))
                else Inr (None, discard_nucleus s n))
             else Inr (None, discard_nucleus s n)))"
  unfolding match_nucleus_id_def Let_def proportions_eq ..


lemma match_nucleus_id_background:
  assumes "nucleus_mask s = Some nm" and "cytosol_mask s = Some cm" and "covered nm cm n"
    and "0 \<in> set (footprint nm cm n)"
  shows "match_nucleus_id s n = Inr (None, discard_nucleus s n)"
proof -
  have "\<not> list_all (\<lambda>v. v \<noteq> 0) (footprint nm cm n)"
    using assms(4) by (auto simp: list_all_iff)
  then show ?thesis
    using assms(1-3) by (simp add: match_nucleus_id_alt np_take_covered)
qed



section \<open>Claims about \<open>_match_nucleus_id\<close>\<close>


lemmas eval_defs = MatchNucleusCytosolIds_def match_nucleus_id_def np_where_eq_def np_take_def
  in_bounds_def np_unique_flat_def np_unique_counts_flat_def np_argmax_def discard_nucleus_def
  covered_def footprint_def overlap_fraction_def overlap_fraction64_def float64_div_def
  float64_normalise.simps round_half_even_def upt_rec


text \<open>
  The threshold test at a tie. The float64 nearest to 0.8 is
  \<open>3602879701896397 / 4503599627370496\<close>, a little above \<open>4 / 5\<close>. A nucleus of five
  pixels with four of them on cytosol 10 is matched to it at the threshold 0.8: the
  quotient \<open>4 / 5\<close> evaluates to that same float64.
\<close>

lemma match_nucleus_id_float64_tie:
  "match_nucleus_id
     ((MatchNucleusCytosolIds (3602879701896397 / 4503599627370496) None True 7)
        \<lparr> nucleus_mask := Some [[1, 1, 1, 1, 1]], cytosol_mask := Some [[10, 10, 10, 10, 20]] \<rparr>) 1
   = Inr (Some 10,
          (MatchNucleusCytosolIds (3602879701896397 / 4503599627370496) None True 7)
            \<lparr> nucleus_mask := Some [[1, 1, 1, 1, 1]], cytosol_mask := Some [[10, 10, 10, 10, 20]],
              lookup_dict := [(1, 10)] \<rparr>)
   \<and> overlap_fraction64 [10, 10, 10, 10, 20] 10 = 3602879701896397 / 4503599627370496
   \<and> overlap_fraction [10, 10, 10, 10, 20] 10 = 4 / 5"
  by (simp add: eval_defs)

text \<open>
  C4. If any pixel of a nucleus lies on cytosol background, the nucleus is appended to
  the nuclei discard list and nothing else changes: no entry is made in the lookup
  table, whatever the threshold and however large the overlap with a cytosol is.
\<close>

theorem match_nucleus_id_background_discards:
  assumes "nucleus_mask s = Some nm" and "cytosol_mask s = Some cm" and "covered nm cm n"
    and "i < length nm" and "j < length (nm ! i)" and "nm ! i ! j = n" and "cm ! i ! j = 0"
  shows "match_nucleus_id s n = Inr (None, s\<lparr> nuclei_discard_list := nuclei_discard_list s @ [n] \<rparr>)"
proof -
  have "(i, j) \<in> set (np_where_eq nm n)"
    using assms(4-6) by (simp add: np_where_eq_iff)
  then have "0 \<in> set (footprint nm cm n)"
    using assms(7) by (force simp: footprint_def)
  from match_nucleus_id_background [OF assms(1-3) this]
  show ?thesis by (simp add: discard_nucleus_def)
qed

theorem match_nucleus_id_background_discards_witness:
  "match_nucleus_id
     ((MatchNucleusCytosolIds (1/2) None True 7)
        \<lparr> nucleus_mask := Some [[1, 1, 1, 0]], cytosol_mask := Some [[10, 10, 0, 0]] \<rparr>) 1
   = Inr (None,
          (MatchNucleusCytosolIds (1/2) None True 7)
            \<lparr> nucleus_mask := Some [[1, 1, 1, 0]], cytosol_mask := Some [[10, 10, 0, 0]],
              nuclei_discard_list := [1] \<rparr>)
   \<and> covered [[1, 1, 1, 0]] [[10, 10, 0, 0]] 1
   \<and> overlap_fraction (footprint [[1, 1, 1, 0]] [[10, 10, 0, 0]] 1) 10 = 2/3"
  using match_nucleus_id_background_discards
    [of "(MatchNucleusCytosolIds (1/2) None True 7)
           \<lparr> nucleus_mask := Some [[1, 1, 1, 0]], cytosol_mask := Some [[10, 10, 0, 0]] \<rparr>"
        "[[1, 1, 1, 0]]" "[[10, 10, 0, 0]]" 1 0 2]
  by (simp add: eval_defs)

section \<open>Downsampling\<close>

lemma load_masks_downsampling:
  "load_masks (MatchNucleusCytosolIds thr (Some f) ed k) nuc cyt = Inl AttributeError"
  by (simp add: load_masks_def MatchNucleusCytosolIds_def downsample_def)

text \<open>
  C6. The claim: with a downsampling factor configured, \<open>filter\<close> runs the pipeline on
  the downsampled masks and returns both cleaned masks upscaled. The code never gets
  there: on a session created with a downsampling factor, \<open>filter\<close> (and
  \<open>get_lookup_table\<close>) raise \<open>AttributeError\<close> while loading the masks, for every
  pair of masks.
\<close>

theorem filter_masks_downsampling_raises:
  "filter_masks erosion dilation (MatchNucleusCytosolIds thr (Some f) ed k) nuc cyt = Inl AttributeError
   \<and> get_lookup_table (MatchNucleusCytosolIds thr (Some f) ed k) nuc cyt = Inl AttributeError"
  by (simp add: filter_masks_def get_lookup_table_def load_masks_downsampling)

text \<open>
  Were the masks already present on the session, so that loading is skipped,
  \<open>_get_updated_masks\<close> would still not return the cleaned cytosol mask: it upscales
  the cytosol mask as loaded.
\<close>

lemma get_updated_masks_downsampling:
  assumes "nucleus_mask s = Some nm" and "cytosol_mask s = Some cm"
    and "downsampling s = Some (f, ed, k)" and "lookup_published s"
  shows "get_updated_masks erosion dilation s
         = Inr (get_upscaled_mask_basic erosion dilation f k (get_updated_mask nm (nuclei_discard_list s)) ed,
                get_upscaled_mask_basic erosion dilation f k cm ed)"
  using assms by (simp add: get_updated_masks_def get_updated_cytosol_mask_def)

section \<open>The lookup table after \<open>_initialize_lookup_table\<close>\<close>










section \<open>From the initial lookup table to the final one\<close>


lemma dd_val_Nil [simp]: "dd_val [] k = 0"
  by (simp add: dd_val_def)





lemma load_masks_fresh:
  "load_masks (MatchNucleusCytosolIds thr None ed k) nuc cyt
   = Inr ((MatchNucleusCytosolIds thr None ed k)\<lparr> nucleus_mask := Some nuc, cytosol_mask := Some cyt \<rparr>)"
  by (simp add: load_masks_def downsample_def MatchNucleusCytosolIds_def)



section \<open>\<open>filter\<close> on a fresh session\<close>


lemma get_lookup_table_loaded:
  "get_lookup_table
     ((MatchNucleusCytosolIds thr None ed k)\<lparr> nucleus_mask := Some nuc, cytosol_mask := Some cyt \<rparr>) nuc cyt
   = get_lookup_table (MatchNucleusCytosolIds thr None ed k) nuc cyt"
  by (simp add: get_lookup_table_def load_masks_def downsample_def MatchNucleusCytosolIds_def)

lemma filter_masks_fresh:
  "filter_masks erosion dilation (MatchNucleusCytosolIds thr None ed k) nuc cyt
   = (case get_lookup_table (MatchNucleusCytosolIds thr None ed k) nuc cyt of
        Inl e \<Rightarrow> Inl e
      | Inr (tbl, s') \<Rightarrow>
         (case get_updated_masks erosion dilation s' of
            Inl e \<Rightarrow> Inl e
          | Inr masks \<Rightarrow> Inr (masks, s')))"
proof -
  have "lookup_published ((MatchNucleusCytosolIds thr None ed k)
          \<lparr> nucleus_mask := Some nuc, cytosol_mask := Some cyt \<rparr>) = False"
    by (simp add: MatchNucleusCytosolIds_def)
  then show ?thesis
    unfolding filter_masks_def load_masks_fresh
    by (simp add: get_lookup_table_loaded split: sum.splits prod.splits)
qed

lemma get_updated_masks_plain:
  assumes "nucleus_mask s = Some nm" and "cytosol_mask s = Some cm"
    and "downsampling s = None" and "lookup_published s"
  shows "get_updated_masks erosion dilation s
         = Inr (get_updated_mask nm (nuclei_discard_list s),
                relabel_loop (lookup_dict s) (get_updated_mask cm (cytosol_discard_list s))
                  (map (map (\<lambda>_. False)) cm))"
  using assms by (simp add: get_updated_masks_def get_updated_cytosol_mask_def)



end
